theory Spec2Isabelle
  imports Complex_Main "HOL-Library.AList"
begin

section \<open>JavaScript values used by the message service\<close>

text \<open>
  The service in \<^verbatim>\<open>src/services/messageService.js\<close> works on plain JavaScript objects.
  A property that may be absent (\<^verbatim>\<open>undefined\<close>) is an \<open>option\<close>; a string is a
  \<open>string\<close>; a \<^verbatim>\<open>Date\<close> is its number of milliseconds, an \<open>int\<close>; a \<^verbatim>\<open>Map\<close>,
  which iterates in insertion order, is an association list whose \<^verbatim>\<open>set\<close> is
  \<^const>\<open>AList.update\<close> (overwrite in place, or append a new key at the end).
\<close>

text \<open>Truthiness of a string-valued property: \<^verbatim>\<open>undefined\<close> and \<^verbatim>\<open>''\<close> are falsy.\<close>

definition truthy :: "string option \<Rightarrow> bool" where
  "truthy v = (case v of None \<Rightarrow> False | Some s \<Rightarrow> s \<noteq> [])"

text \<open>\<^verbatim>\<open>v || d\<close> for a string-valued property \<open>v\<close> and a string default \<open>d\<close>.\<close>

definition or_else :: "string option \<Rightarrow> string \<Rightarrow> string" where
  "or_else v d = (if truthy v then the v else d)"

text \<open>\<^verbatim>\<open>a || b\<close> where both sides may be \<^verbatim>\<open>undefined\<close>.\<close>

definition or_opt :: "string option \<Rightarrow> string option \<Rightarrow> string option" where
  "or_opt a b = (if truthy a then a else b)"

text \<open>Decimal rendering of a number inside a template literal, as in \<^verbatim>\<open>`msg_${n}`\<close>.\<close>

definition digit_char :: "nat \<Rightarrow> char" where
  "digit_char d = char_of (48 + d)"

fun string_of_nat :: "nat \<Rightarrow> string" where
  "string_of_nat n =
     (if n < 10 then [digit_char n]
      else string_of_nat (n div 10) @ [digit_char (n mod 10)])"

declare string_of_nat.simps [simp del]

definition string_of_int :: "int \<Rightarrow> string" where
  "string_of_int i = (if i < 0 then CHR ''-'' # string_of_nat (nat (- i)) else string_of_nat (nat i))"

section \<open>Data model of \<^verbatim>\<open>MessageService\<close>\<close>

datatype meta_value = MStr string | MBool bool | MNum int | MUndefined

type_synonym metadata = "(string \<times> meta_value) list"

record attachment =
  att_type :: "string option"
  att_url :: "string option"
  att_platform :: "string option"
  att_filename :: "string option"

text \<open>The argument of \<^verbatim>\<open>createMessage\<close>: every property is optional.\<close>

record messageData =
  md_platform :: "string option"
  md_sender :: "string option"
  md_senderId :: "string option"
  md_recipient :: "string option"
  md_recipientId :: "string option"
  md_text :: "string option"
  md_subject :: "string option"
  md_timestamp :: "int option"
  md_status :: "string option"
  md_type :: "string option"
  md_attachments :: "attachment list option"
  md_metadata :: "metadata option"
  md_threadId :: "string option"
  md_conversationId :: "string option"
  md_platformMessageId :: "string option"
  md_isIncoming :: "bool option"

text \<open>The result of \<^verbatim>\<open>aiService.categorizeMessage\<close>.\<close>

record aiAnalysis =
  a_category :: string
  a_confidence :: rat
  a_priority :: string
  a_sentiment :: string
  a_keywords :: "string list"
  a_suggestedReplies :: "string list"
  a_aiInsights :: metadata

text \<open>The object built at lines 47--73 of \<^verbatim>\<open>createMessage\<close>; \<open>m_readAt\<close> is added later by
  the mark-as-read operations.\<close>

record message =
  m_id :: string
  m_platform :: "string option"
  m_sender :: "string option"
  m_senderId :: "string option"
  m_recipient :: "string option"
  m_recipientId :: "string option"
  m_text :: string
  m_subject :: "string option"
  m_timestamp :: int
  m_status :: string
  m_type :: string
  m_attachments :: "attachment list"
  m_metadata :: metadata
  m_threadId :: "string option"
  m_conversationId :: "string option"
  m_platformMessageId :: "string option"
  m_isIncoming :: bool
  m_priority :: string
  m_aiCategory :: string
  m_aiConfidence :: rat
  m_aiSentiment :: string
  m_aiKeywords :: "string list"
  m_aiSuggestedReplies :: "string list"
  m_aiInsights :: metadata
  m_readAt :: "int option"

record conversation =
  c_id :: string
  c_title :: string
  c_participants :: "string list"
  c_platforms :: "string option list"
  c_messageCount :: nat
  c_lastMessage :: string
  c_lastMessageTime :: int
  c_createdAt :: int
  c_updatedAt :: int
  c_primaryPlatform :: "string option"
  c_hasAttachments :: bool

text \<open>The fields of the \<^verbatim>\<open>MessageService\<close> singleton.\<close>

record service =
  messages :: "(string \<times> message) list"
  conversations :: "(string \<times> conversation) list"
  messageCounter :: nat
  conversationCounter :: nat

text \<open>The constructor.\<close>

definition new_service :: service where
  "new_service = \<lparr>messages = [], conversations = [], messageCounter = 0, conversationCounter = 0\<rparr>"

text \<open>What a run of \<^verbatim>\<open>createMessage\<close> reads from outside the service: the clock
  (\<^verbatim>\<open>new Date()\<close>) and the categorizer, which answers \<open>None\<close> when it throws.\<close>

record env =
  now :: int
  categorizeMessage :: "string \<Rightarrow> string option \<Rightarrow> aiAnalysis option"

datatype error = TypeError | ConversationNotFound | MessageNotFound

section \<open>\<^verbatim>\<open>normalizeMessageData\<close>\<close>

text \<open>\<^verbatim>\<open>messageData.isIncoming !== false\<close>.\<close>

definition not_false :: "bool option \<Rightarrow> bool" where
  "not_false b = (b \<noteq> Some False)"

definition platform_defaults :: "messageData \<Rightarrow> messageData" where
  "platform_defaults md =
     (if md_platform md = Some ''gmail'' then
        md\<lparr>md_type := Some ''email'',
           md_subject := Some (or_else (md_subject md) ''No Subject''),
           md_isIncoming := Some (not_false (md_isIncoming md))\<rparr>
      else if md_platform md = Some ''telegram'' then
        md\<lparr>md_type := Some ''chat'', md_isIncoming := Some (not_false (md_isIncoming md))\<rparr>
      else if md_platform md = Some ''whatsapp'' then
        md\<lparr>md_type := Some ''chat'', md_isIncoming := Some (not_false (md_isIncoming md))\<rparr>
      else if md_platform md = Some ''instagram'' then
        md\<lparr>md_type := Some ''direct_message'', md_isIncoming := Some (not_false (md_isIncoming md))\<rparr>
      else if md_platform md = Some ''twitter'' then
        md\<lparr>md_type := Some ''direct_message'', md_isIncoming := Some (not_false (md_isIncoming md))\<rparr>
      else md)"

text \<open>The argument is \<open>None\<close> when the caller passed \<^verbatim>\<open>undefined\<close> or \<^verbatim>\<open>null\<close>: the spread
  \<^verbatim>\<open>{ ...messageData }\<close> accepts it, the read \<^verbatim>\<open>messageData.platform\<close> throws.\<close>

definition normalizeMessageData :: "messageData option \<Rightarrow> error + messageData" where
  "normalizeMessageData arg =
     (case arg of
        None \<Rightarrow> Inl TypeError
      | Some md \<Rightarrow>
          (let n = platform_defaults md in
           Inr (n\<lparr>md_text := Some (or_else (md_text n) []),
                  md_attachments := Some (case md_attachments n of None \<Rightarrow> [] | Some as \<Rightarrow> as),
                  md_metadata := Some (case md_metadata n of None \<Rightarrow> [] | Some kv \<Rightarrow> kv)\<rparr>)))"

section \<open>Conversations\<close>

definition conversation_id :: "nat \<Rightarrow> string" where
  "conversation_id n = ''conv_'' @ string_of_nat n"

definition message_id :: "nat \<Rightarrow> string" where
  "message_id n = ''msg_'' @ string_of_nat n"

text \<open>\<^verbatim>\<open>Set.prototype.add\<close> on a set kept in insertion order.\<close>

definition set_add :: "'a list \<Rightarrow> 'a \<Rightarrow> 'a list" where
  "set_add xs x = (if x \<in> set xs then xs else xs @ [x])"

text \<open>\<^verbatim>\<open>if (v && !participants.includes(v)) participants.push(v)\<close>.\<close>

definition add_participant :: "string option \<Rightarrow> string list \<Rightarrow> string list" where
  "add_participant v ps = (if truthy v \<and> the v \<notin> set ps then ps @ [the v] else ps)"

definition createConversation :: "message \<Rightarrow> service \<Rightarrow> string \<times> service" where
  "createConversation msg s =
     (let n = conversationCounter s + 1;
          conversationId = conversation_id n;
          conv = \<lparr>c_id = conversationId,
                  c_title = or_else (or_opt (m_subject msg) (m_sender msg)) ''New Conversation'',
                  c_participants = map the (filter truthy [m_senderId msg, m_recipientId msg]),
                  c_platforms = [m_platform msg],
                  c_messageCount = 1,
                  c_lastMessage = m_text msg,
                  c_lastMessageTime = m_timestamp msg,
                  c_createdAt = m_timestamp msg,
                  c_updatedAt = m_timestamp msg,
                  c_primaryPlatform = m_platform msg,
                  c_hasAttachments = (length (m_attachments msg) > 0)\<rparr>
      in (conversationId,
          s\<lparr>conversationCounter := n,
            conversations := AList.update conversationId conv (conversations s)\<rparr>))"

text \<open>
  \<^verbatim>\<open>updateConversation\<close> receives the very object that \<^verbatim>\<open>createMessage\<close> has just put
  into the message map, so the assignment \<^verbatim>\<open>message.conversationId = conversationId\<close> is
  seen through the map as well: the model rewrites the entry under the message's id.
  The function returns the conversation id; the mutated message is returned beside it.
\<close>

definition updateConversation :: "message \<Rightarrow> service \<Rightarrow> (string \<times> message) \<times> service" where
  "updateConversation msg s =
     (let (conversationId, msg1, s1) =
            (if \<not> truthy (m_conversationId msg) then
               (let (cid, s') = createConversation msg s;
                    msg' = msg\<lparr>m_conversationId := Some cid\<rparr>
                in (cid, msg', s'\<lparr>messages := AList.update (m_id msg') msg' (messages s')\<rparr>))
             else (the (m_conversationId msg), msg, s))
      in (case map_of (conversations s1) conversationId of
            None \<Rightarrow> ((conversationId, msg1), s1)
          | Some conv \<Rightarrow>
              (let conv' = conv\<lparr>c_lastMessage := m_text msg1,
                                c_lastMessageTime := m_timestamp msg1,
                                c_messageCount := c_messageCount conv + 1,
                                c_platforms := set_add (c_platforms conv) (m_platform msg1),
                                c_participants :=
                                  add_participant (m_recipientId msg1)
                                    (add_participant (m_senderId msg1) (c_participants conv))\<rparr>
               in ((conversationId, msg1),
                   s1\<lparr>conversations := AList.update conversationId conv' (conversations s1)\<rparr>))))"

section \<open>\<^verbatim>\<open>createMessage\<close>\<close>

text \<open>Lines 47--73: the message object, from the id, the clock reading, the normalized
  payload and the categorizer's answer (\<open>None\<close> when it was not asked or threw).\<close>

definition or_str :: "string \<Rightarrow> string \<Rightarrow> string" where
  "or_str v d = (if v = [] then d else v)"

definition build_message :: "string \<Rightarrow> int \<Rightarrow> messageData \<Rightarrow> aiAnalysis option \<Rightarrow> message" where
  "build_message messageId timestamp n ai =
     \<lparr>m_id = messageId,
      m_platform = md_platform n,
      m_sender = md_sender n,
      m_senderId = md_senderId n,
      m_recipient = md_recipient n,
      m_recipientId = md_recipientId n,
      m_text = or_else (md_text n) [],
      m_subject = md_subject n,
      m_timestamp = timestamp,
      m_status = ''unread'',
      m_type = or_else (md_type n) ''message'',
      m_attachments = (case md_attachments n of None \<Rightarrow> [] | Some as \<Rightarrow> as),
      m_metadata = (case md_metadata n of None \<Rightarrow> [] | Some kv \<Rightarrow> kv),
      m_threadId = md_threadId n,
      m_conversationId = md_conversationId n,
      m_platformMessageId = md_platformMessageId n,
      m_isIncoming = (md_isIncoming n = Some True),
      m_priority = (case ai of None \<Rightarrow> ''normal'' | Some a \<Rightarrow> or_str (a_priority a) ''normal''),
      m_aiCategory = (case ai of None \<Rightarrow> ''general'' | Some a \<Rightarrow> or_str (a_category a) ''general''),
      m_aiConfidence = (case ai of None \<Rightarrow> 0 | Some a \<Rightarrow> a_confidence a),
      m_aiSentiment = (case ai of None \<Rightarrow> ''neutral'' | Some a \<Rightarrow> or_str (a_sentiment a) ''neutral''),
      m_aiKeywords = (case ai of None \<Rightarrow> [] | Some a \<Rightarrow> a_keywords a),
      m_aiSuggestedReplies = (case ai of None \<Rightarrow> [] | Some a \<Rightarrow> a_suggestedReplies a),
      m_aiInsights = (case ai of None \<Rightarrow> [] | Some a \<Rightarrow> a_aiInsights a),
      m_readAt = None\<rparr>"

text \<open>
  The counter is advanced first (\<^verbatim>\<open>++this.messageCounter\<close>), before anything can throw;
  the \<^verbatim>\<open>catch\<close> block logs and rethrows without undoing it.
\<close>

definition createMessage :: "env \<Rightarrow> messageData option \<Rightarrow> service \<Rightarrow> (error + message) \<times> service" where
  "createMessage e arg s =
     (let s1 = s\<lparr>messageCounter := messageCounter s + 1\<rparr>;
          messageId = message_id (messageCounter s1);
          timestamp = now e
      in (case normalizeMessageData arg of
            Inl err \<Rightarrow> (Inl err, s1)
          | Inr n \<Rightarrow>
              (let ai = (if truthy (md_text n)
                         then categorizeMessage e (the (md_text n)) (md_platform n)
                         else None);
                   msg = build_message messageId timestamp n ai;
                   s2 = s1\<lparr>messages := AList.update messageId msg (messages s1)\<rparr>;
                   ((cid, msg'), s3) = updateConversation msg s2
               in (Inr msg', s3))))"

section \<open>Reading a conversation\<close>

text \<open>\<^verbatim>\<open>Array.prototype.slice(-limit)\<close>: the last \<open>limit\<close> elements for a positive limit,
  everything for \<open>0\<close>, all but the first \<open>-limit\<close> for a negative one.\<close>

definition slice_neg :: "int \<Rightarrow> 'a list \<Rightarrow> 'a list" where
  "slice_neg limit xs =
     (if 0 < limit then drop (length xs - nat limit) xs else drop (nat (- limit)) xs)"

text \<open>The sort is stable (ECMAScript 2019), as is \<^const>\<open>sort_key\<close>.\<close>

definition getConversationMessages :: "string \<Rightarrow> int \<Rightarrow> service \<Rightarrow> error + message list" where
  "getConversationMessages conversationId limit s =
     (case map_of (conversations s) conversationId of
        None \<Rightarrow> Inl ConversationNotFound
      | Some conv \<Rightarrow>
          Inr (slice_neg limit
                 (sort_key m_timestamp
                    (filter (\<lambda>msg. m_conversationId msg = Some conversationId)
                       (map snd (messages s))))))"

section \<open>\<^verbatim>\<open>markConversationAsRead\<close>\<close>

text \<open>
  The loop over the entries of the message map. Each update reads the clock again; the
  \<open>k\<close>-th reading of the run is \<open>clock k\<close>, and the number of readings so far is the running
  \<^verbatim>\<open>updatedCount\<close>.
\<close>

definition unread_in :: "string \<Rightarrow> message \<Rightarrow> bool" where
  "unread_in cid msg = (m_conversationId msg = Some cid \<and> m_status msg = ''unread'')"

fun mark_loop :: "(nat \<Rightarrow> int) \<Rightarrow> string \<Rightarrow> (string \<times> message) list \<Rightarrow> nat
                  \<Rightarrow> (string \<times> message) list \<times> nat" where
  "mark_loop clock cid [] updatedCount = ([], updatedCount)"
| "mark_loop clock cid ((k, msg) # rest) updatedCount =
     (if unread_in cid msg then
        (let (rest', n) = mark_loop clock cid rest (updatedCount + 1)
         in ((k, msg\<lparr>m_status := ''read'', m_readAt := Some (clock updatedCount)\<rparr>) # rest', n))
      else
        (let (rest', n) = mark_loop clock cid rest updatedCount
         in ((k, msg) # rest', n)))"

definition markConversationAsRead :: "(nat \<Rightarrow> int) \<Rightarrow> string \<Rightarrow> service \<Rightarrow> (error + nat) \<times> service" where
  "markConversationAsRead clock conversationId s =
     (case map_of (conversations s) conversationId of
        None \<Rightarrow> (Inl ConversationNotFound, s)
      | Some conv \<Rightarrow>
          (let (ms, updatedCount) = mark_loop clock conversationId (messages s) 0
           in (Inr updatedCount, s\<lparr>messages := ms\<rparr>)))"


section \<open>Runs of several creations\<close>

text \<open>A sequence of \<^verbatim>\<open>createMessage\<close> calls on payload objects, each with its own
  clock reading and categorizer.\<close>

fun create_all :: "(env \<times> messageData) list \<Rightarrow> service \<Rightarrow> service" where
  "create_all [] s = s"
| "create_all ((e, md) # rest) s = create_all rest (snd (createMessage e (Some md) s))"

text \<open>The messages of one conversation in the order of the message map, as every reader
  of the service filters them.\<close>

definition conversation_messages :: "string \<Rightarrow> service \<Rightarrow> message list" where
  "conversation_messages cid s =
     filter (\<lambda>msg. m_conversationId msg = Some cid) (map snd (messages s))"

text \<open>The keys of the message map are distinct and were all handed out by the counter.\<close>

definition wf_service :: "service \<Rightarrow> bool" where
  "wf_service s =
     (distinct (map fst (messages s)) \<and>
      list_all (\<lambda>k. k \<in> set (map message_id [1..<Suc (messageCounter s)])) (map fst (messages s)))"

section \<open>The Telegram webhook handler\<close>

text \<open>
  \<^verbatim>\<open>router.post('/telegram', ...)\<close> of the webhook routes. The request body is a Telegram
  update; reading a property of an absent object, or calling \<^verbatim>\<open>toString\<close> on an absent
  number, throws a \<^verbatim>\<open>TypeError\<close>, which the handler's \<^verbatim>\<open>catch\<close> turns into status 500.
\<close>

record tg_user =
  u_id :: "int option"
  u_username :: "string option"
  u_first_name :: "string option"

record tg_chat =
  ch_id :: "int option"
  ch_username :: "string option"
  ch_title :: "string option"
  ch_type :: "string option"

record tg_file =
  f_file_id :: "string option"
  f_file_name :: "string option"

record tg_message =
  tg_from :: "tg_user option"
  tg_chat :: "tg_chat option"
  tg_text :: "string option"
  tg_caption :: "string option"
  tg_date :: "int option"
  tg_message_id :: "int option"
  tg_photo :: "tg_file list option"
  tg_video :: "tg_file option"
  tg_document :: "tg_file option"
  tg_audio :: "tg_file option"
  tg_voice :: "tg_file option"

record tg_update =
  upd_message :: "tg_message option"
  upd_edited_message :: "tg_message option"
  upd_channel_post :: "tg_message option"
  upd_edited_channel_post :: "tg_message option"

text \<open>\<^verbatim>\<open>a || b\<close> on objects: every object is truthy.\<close>

definition or_obj :: "'a option \<Rightarrow> 'a option \<Rightarrow> 'a option" where
  "or_obj a b = (case a of Some x \<Rightarrow> Some x | None \<Rightarrow> b)"

definition has_media :: "tg_message \<Rightarrow> bool" where
  "has_media msg =
     (tg_photo msg \<noteq> None \<or> tg_video msg \<noteq> None \<or> tg_document msg \<noteq> None \<or>
      tg_audio msg \<noteq> None \<or> tg_voice msg \<noteq> None)"

text \<open>The attachment list, when the message carries media. An empty \<^verbatim>\<open>photo\<close> array is
  truthy, and \<^verbatim>\<open>msg.photo[msg.photo.length - 1].file_id\<close> then throws.\<close>

definition telegram_attachments :: "tg_message \<Rightarrow> error + attachment list" where
  "telegram_attachments msg =
     (case (case tg_photo msg of
              None \<Rightarrow> Inr []
            | Some [] \<Rightarrow> Inl TypeError
            | Some (p # ps) \<Rightarrow>
                Inr [\<lparr>att_type = Some ''image'', att_url = f_file_id (last (p # ps)),
                      att_platform = Some ''telegram'', att_filename = None\<rparr>]) of
        Inl err \<Rightarrow> Inl err
      | Inr photos \<Rightarrow>
          Inr (photos
               @ (case tg_video msg of
                    None \<Rightarrow> []
                  | Some v \<Rightarrow> [\<lparr>att_type = Some ''video'', att_url = f_file_id v,
                                att_platform = Some ''telegram'', att_filename = None\<rparr>])
               @ (case tg_document msg of
                    None \<Rightarrow> []
                  | Some d \<Rightarrow> [\<lparr>att_type = Some ''document'', att_url = f_file_id d,
                                att_platform = Some ''telegram'', att_filename = f_file_name d\<rparr>])))"

definition telegram_unified :: "tg_update \<Rightarrow> tg_message \<Rightarrow> error + messageData" where
  "telegram_unified body msg =
     (case (tg_from msg, tg_chat msg) of
        (Some from, Some chat) \<Rightarrow>
          (case (u_id from, ch_id chat, tg_message_id msg) of
             (Some fid, Some cid, Some mid) \<Rightarrow>
               (let unified =
                      \<lparr>md_platform = Some ''telegram'',
                       md_sender = Some (or_else (or_opt (u_username from) (u_first_name from)) ''Unknown''),
                       md_senderId = Some (string_of_int fid),
                       md_recipient = Some (or_else (or_opt (ch_username chat) (ch_title chat)) ''Unknown''),
                       md_recipientId = Some (string_of_int cid),
                       md_text = Some (or_else (or_opt (tg_text msg) (tg_caption msg)) []),
                       md_subject = None,
                       md_timestamp = map_option (\<lambda>d. d * 1000) (tg_date msg),
                       md_status = None,
                       md_type = Some ''message'',
                       md_attachments = None,
                       md_metadata =
                         Some [(''chatType'', case ch_type chat of None \<Rightarrow> MUndefined | Some t \<Rightarrow> MStr t),
                               (''isEdited'', MBool (upd_edited_message body \<noteq> None \<or>
                                                     upd_edited_channel_post body \<noteq> None)),
                               (''hasMedia'', MBool (has_media msg))],
                       md_threadId = None,
                       md_conversationId = None,
                       md_platformMessageId = Some (string_of_int mid),
                       md_isIncoming = None\<rparr>
                in if has_media msg then
                     (case telegram_attachments msg of
                        Inl err \<Rightarrow> Inl err
                      | Inr as \<Rightarrow> Inr (unified\<lparr>md_attachments := Some as\<rparr>))
                   else Inr unified)
           | _ \<Rightarrow> Inl TypeError)
      | _ \<Rightarrow> Inl TypeError)"

text \<open>
  What \<^verbatim>\<open>req.app.get('io').to('platform:telegram').emit('message:new', savedMessage)\<close>
  does: the application has no \<^verbatim>\<open>io\<close> registered (the read yields \<^verbatim>\<open>undefined\<close> and
  \<^verbatim>\<open>.to\<close> throws), or the emit throws, or it returns.
\<close>

datatype io_outcome = IoMissing | EmitThrows | EmitReturns

datatype response = NoContent200 | Saved200 string | Error500

definition telegram_webhook :: "env \<Rightarrow> io_outcome \<Rightarrow> tg_update \<Rightarrow> service \<Rightarrow> response \<times> service" where
  "telegram_webhook e io body s =
     (case or_obj (upd_message body)
             (or_obj (upd_edited_message body)
                (or_obj (upd_channel_post body) (upd_edited_channel_post body))) of
        None \<Rightarrow> (NoContent200, s)
      | Some msg \<Rightarrow>
          (case telegram_unified body msg of
             Inl err \<Rightarrow> (Error500, s)
           | Inr unifiedMessage \<Rightarrow>
               (case createMessage e (Some unifiedMessage) s of
                  (Inl err, s') \<Rightarrow> (Error500, s')
                | (Inr savedMessage, s') \<Rightarrow>
                    (if io = EmitReturns then (Saved200 (m_id savedMessage), s')
                     else (Error500, s')))))"

section \<open>The send-message handler of \<^verbatim>\<open>routes/messages.js\<close>\<close>





section \<open>Example inputs\<close>

definition no_fields :: messageData where
  "no_fields =
     \<lparr>md_platform = None, md_sender = None, md_senderId = None, md_recipient = None,
      md_recipientId = None, md_text = None, md_subject = None, md_timestamp = None,
      md_status = None, md_type = None, md_attachments = None, md_metadata = None,
      md_threadId = None, md_conversationId = None, md_platformMessageId = None,
      md_isIncoming = None\<rparr>"

text \<open>A clock reading, with a categorizer that throws.\<close>

definition env_at :: "int \<Rightarrow> env" where
  "env_at t = \<lparr>now = t, categorizeMessage = (\<lambda>txt p. None)\<rparr>"

definition urgent_analysis :: aiAnalysis where
  "urgent_analysis =
     \<lparr>a_category = ''urgent'', a_confidence = 9 / 10, a_priority = ''high'',
      a_sentiment = ''negative'', a_keywords = [''server'', ''down''],
      a_suggestedReplies = [], a_aiInsights = []\<rparr>"

definition env_urgent :: "int \<Rightarrow> env" where
  "env_urgent t = \<lparr>now = t, categorizeMessage = (\<lambda>txt p. Some urgent_analysis)\<rparr>"

text \<open>A Telegram text message with native id 555, as a webhook delivers it.\<close>

definition telegram_555 :: tg_update where
  "telegram_555 =
     \<lparr>upd_message =
        Some \<lparr>tg_from = Some \<lparr>u_id = Some 42, u_username = Some ''alice'', u_first_name = Some ''Alice''\<rparr>,
              tg_chat = Some \<lparr>ch_id = Some 42, ch_username = Some ''alice'', ch_title = None,
                               ch_type = Some ''private''\<rparr>,
              tg_text = Some ''hello'', tg_caption = None, tg_date = Some 1700000000,
              tg_message_id = Some 555, tg_photo = None, tg_video = None, tg_document = None,
              tg_audio = None, tg_voice = None\<rparr>,
      upd_edited_message = None, upd_channel_post = None, upd_edited_channel_post = None\<rparr>"

text \<open>Three creations: two payloads naming no conversation, then one naming the first
  conversation.\<close>

definition three_messages :: service where
  "three_messages =
     create_all [(env_at 1, no_fields), (env_at 2, no_fields),
                 (env_at 3, no_fields\<lparr>md_conversationId := Some ''conv_1''\<rparr>)] new_service"

text \<open>The same Telegram update delivered twice, the application's \<^verbatim>\<open>io\<close> working.\<close>

definition first_delivery :: "response \<times> service" where
  "first_delivery = telegram_webhook (env_at 5) EmitReturns telegram_555 new_service"

definition second_delivery :: "response \<times> service" where
  "second_delivery = telegram_webhook (env_at 6) EmitReturns telegram_555 (snd first_delivery)"

text \<open>A payload carrying the idempotency pair of \<open>telegram_555\<close>.\<close>

definition again_555 :: messageData where
  "again_555 = no_fields\<lparr>md_platform := Some ''telegram'', md_platformMessageId := Some ''555''\<rparr>"

text \<open>A clock whose \<open>k\<close>-th reading is \<open>t + k\<close>.\<close>

definition clock_from :: "int \<Rightarrow> nat \<Rightarrow> int" where
  "clock_from t k = t + int k"

text \<open>A payload with a text, and one that names an existing conversation.\<close>

definition server_down :: messageData where
  "server_down = no_fields\<lparr>md_text := Some ''server down''\<rparr>"

definition into_conv_1 :: messageData where
  "into_conv_1 = no_fields\<lparr>md_conversationId := Some ''conv_1''\<rparr>"


text \<open>Two messages of one conversation: the first created carries the later platform
  timestamp.\<close>

definition sent_later :: messageData where
  "sent_later = no_fields\<lparr>md_platformMessageId := Some ''a'', md_timestamp := Some 2000\<rparr>"

definition sent_earlier :: messageData where
  "sent_earlier = no_fields\<lparr>md_platformMessageId := Some ''b'', md_timestamp := Some 1000,
                             md_conversationId := Some ''conv_1''\<rparr>"

definition out_of_order :: service where
  "out_of_order = create_all [(env_at 1, sent_later), (env_at 2, sent_earlier)] new_service"

text \<open>A payload that names a conversation nobody created.\<close>

definition into_conv_9 :: messageData where
  "into_conv_9 = no_fields\<lparr>md_text := Some ''hello'', md_conversationId := Some ''conv_9''\<rparr>"

text \<open>A reply inside the first conversation.\<close>

definition reply_in_conv_1 :: messageData where
  "reply_in_conv_1 = no_fields\<lparr>md_text := Some ''hello'', md_conversationId := Some ''conv_1''\<rparr>"

text \<open>The clock stepped back between two creations in one conversation.\<close>

definition clock_back :: service where
  "clock_back = create_all [(env_at 10, sent_later), (env_at 5, sent_earlier)] new_service"

section \<open>The decimal rendering on examples\<close>

lemma string_of_nat_examples:
  "string_of_nat 0 = ''0''" "string_of_nat 7 = ''7''" "string_of_nat 120 = ''120''"
  "string_of_int (- 42) = ''-42''" "message_id 12 = ''msg_12''"
  by code_simp+

section \<open>Marking a conversation as read\<close>

lemma mark_loop_count:
  "snd (mark_loop clock cid ms n) = n + length (filter (unread_in cid \<circ> snd) ms)"
  by (induction clock cid ms n rule: mark_loop.induct) (simp_all add: split_beta)

lemma mark_loop_changed:
  "list_all2 (\<lambda>old new. fst new = fst old \<and>
       (if unread_in cid (snd old)
        then \<exists>t. snd new = (snd old)\<lparr>m_status := ''read'', m_readAt := Some t\<rparr>
        else snd new = snd old))
     ms (fst (mark_loop clock cid ms n))"
proof (induction ms arbitrary: n)
  case Nil
  show ?case by simp
next
  case (Cons p ms)
  obtain k msg where p: "p = (k, msg)" by (cases p)
  show ?case
  proof (cases "unread_in cid msg")
    case True
    have "\<exists>t. msg\<lparr>m_status := ''read'', m_readAt := Some (clock n)\<rparr>
            = msg\<lparr>m_status := ''read'', m_readAt := Some t\<rparr>"
      by blast
    with Cons.IH[of "n + 1"] True show ?thesis
      by (simp add: p split_beta del: message.simps)
  next
    case False
    with Cons.IH[of n] show ?thesis
      by (simp add: p split_beta)
  qed
qed

text \<open>
  Claim C10. For an existing conversation, \<^verbatim>\<open>markConversationAsRead\<close> returns the number of
  stored messages that belong to the conversation and are unread, and the message map after
  the call has the same keys in the same order; an entry that was unread in the conversation
  differs from its old value in \<open>m_status\<close> (now \<^verbatim>\<open>'read'\<close>) and \<open>m_readAt\<close> (now a clock
  reading) only, every other entry is unchanged, and so is the rest of the service.
\<close>

theorem markConversationAsRead_frame:
  assumes "map_of (conversations s) conversationId = Some conv"
  shows "\<exists>ms. markConversationAsRead clock conversationId s =
                 (Inr (length (filter (unread_in conversationId \<circ> snd) (messages s))),
                  s\<lparr>messages := ms\<rparr>)
              \<and> list_all2 (\<lambda>old new. fst new = fst old \<and>
                    (if unread_in conversationId (snd old)
                     then \<exists>t. snd new = (snd old)\<lparr>m_status := ''read'', m_readAt := Some t\<rparr>
                     else snd new = snd old))
                  (messages s) ms"
proof -
  let ?r = "mark_loop clock conversationId (messages s) 0"
  have a: "markConversationAsRead clock conversationId s =
             (Inr (length (filter (unread_in conversationId \<circ> snd) (messages s))),
              s\<lparr>messages := fst ?r\<rparr>)"
    using assms mark_loop_count[of clock conversationId "messages s" 0]
    by (simp add: markConversationAsRead_def split_beta)
  show ?thesis
    by (rule exI[of _ "fst ?r"], rule conjI, rule a, rule mark_loop_changed)
qed

lemma three_messages_conv_1: "map_of (conversations three_messages) ''conv_1'' \<noteq> None"
  unfolding three_messages_def by code_simp

lemma three_messages_unread:
  "length (filter (unread_in ''conv_1'' \<circ> snd) (messages three_messages)) = 2"
  unfolding three_messages_def by code_simp

theorem markConversationAsRead_frame_witness:
  "map_of (conversations three_messages) ''conv_1'' \<noteq> None
   \<and> fst (markConversationAsRead (clock_from 5000) ''conv_1'' three_messages) = Inr 2
   \<and> map (m_conversationId \<circ> snd) (messages three_messages)
       = [Some ''conv_1'', Some ''conv_2'', Some ''conv_1'']
   \<and> map (m_status \<circ> snd)
         (messages (snd (markConversationAsRead (clock_from 5000) ''conv_1'' three_messages)))
       = [''read'', ''unread'', ''read'']
   \<and> map (m_readAt \<circ> snd)
         (messages (snd (markConversationAsRead (clock_from 5000) ''conv_1'' three_messages)))
       = [Some 5000, None, Some 5001]"
proof -
  obtain conv where h: "map_of (conversations three_messages) ''conv_1'' = Some conv"
    using three_messages_conv_1 by blast
  have after: "map (m_conversationId \<circ> snd) (messages three_messages)
       = [Some ''conv_1'', Some ''conv_2'', Some ''conv_1'']
   \<and> map (m_status \<circ> snd)
         (messages (snd (markConversationAsRead (clock_from 5000) ''conv_1'' three_messages)))
       = [''read'', ''unread'', ''read'']
   \<and> map (m_readAt \<circ> snd)
         (messages (snd (markConversationAsRead (clock_from 5000) ''conv_1'' three_messages)))
       = [Some 5000, None, Some 5001]"
    by code_simp
  from markConversationAsRead_frame[OF h, of "clock_from 5000"] three_messages_unread h
  have "map_of (conversations three_messages) ''conv_1'' \<noteq> None
        \<and> fst (markConversationAsRead (clock_from 5000) ''conv_1'' three_messages) = Inr 2"
    by auto
  with after show ?thesis by blast
qed

section \<open>Shape of a creation\<close>

lemma normalizeMessageData_Some:
  "\<exists>n. normalizeMessageData (Some md) = Inr n"
  by (simp add: normalizeMessageData_def Let_def)

lemma normalizeMessageData_fields:
  assumes "normalizeMessageData (Some md) = Inr n"
  shows "md_conversationId n = md_conversationId md"
    and "md_text n = Some (or_else (md_text md) [])"
    and "md_attachments n = Some (case md_attachments md of None \<Rightarrow> [] | Some as \<Rightarrow> as)"
    and "md_platform n = md_platform md"
    and "md_platformMessageId n = md_platformMessageId md"
  using assms by (auto simp: normalizeMessageData_def platform_defaults_def Let_def)

lemma updateConversation_shape:
  assumes "updateConversation msg s = ((cid, msg'), s')"
  shows "msg' = (if truthy (m_conversationId msg) then msg
                 else msg\<lparr>m_conversationId := Some (conversation_id (Suc (conversationCounter s)))\<rparr>)"
    and "m_conversationId msg' = Some cid"
    and "messages s' = (if truthy (m_conversationId msg) then messages s
                        else AList.update (m_id msg) msg' (messages s))"
    and "messageCounter s' = messageCounter s"
  using assms
  by (auto simp: updateConversation_def createConversation_def Let_def truthy_def
           split: option.splits if_splits)

lemma update_fresh: "k \<notin> fst ` set al \<Longrightarrow> AList.update k v al = al @ [(k, v)]"
  by (induct al) auto


lemma build_message_id [simp]: "m_id (build_message i t n ai) = i"
  by (simp add: build_message_def)

lemma build_message_conversationId [simp]:
  "m_conversationId (build_message i t n ai) = md_conversationId n"
  by (simp add: build_message_def)

lemma createMessage_Some:
  fixes e :: env and md :: messageData and s :: service
  assumes n: "normalizeMessageData (Some md) = Inr n"
  defines "ai \<equiv> (if truthy (md_text n) then categorizeMessage e (the (md_text n)) (md_platform n)
                  else None)"
  defines "msg \<equiv> build_message (message_id (Suc (messageCounter s))) (now e) n ai"
  defines "m \<equiv> (if truthy (md_conversationId md) then msg
                 else msg\<lparr>m_conversationId := Some (conversation_id (Suc (conversationCounter s)))\<rparr>)"
  shows "\<exists>s'. createMessage e (Some md) s = (Inr m, s')
             \<and> messages s' = AList.update (message_id (Suc (messageCounter s))) m (messages s)
             \<and> messageCounter s' = Suc (messageCounter s)"
proof -
  let ?mid = "message_id (Suc (messageCounter s))"
  let ?s2 = "s\<lparr>messageCounter := Suc (messageCounter s),
               messages := AList.update ?mid msg (messages s)\<rparr>"
  obtain cid msg' s3 where u: "updateConversation msg ?s2 = ((cid, msg'), s3)"
    by (metis surj_pair)
  have cm: "createMessage e (Some md) s = (Inr msg', s3)"
    using n u by (simp add: createMessage_def Let_def ai_def msg_def)
  have cidn: "md_conversationId n = md_conversationId md"
    using normalizeMessageData_fields(1)[OF n] .
  have m': "msg' = m"
    using updateConversation_shape(1)[OF u] cidn by (simp add: m_def msg_def)
  have "messages s3 = AList.update ?mid m (messages s)"
    using updateConversation_shape(3)[OF u] m' cidn by (simp add: msg_def m_def)
  moreover have "messageCounter s3 = Suc (messageCounter s)"
    using updateConversation_shape(4)[OF u] by simp
  ultimately show ?thesis using cm m' by simp
qed

section \<open>Identifiers\<close>

lemma digit_char_inj:
  assumes "a < 10" "b < 10" "digit_char a = digit_char b"
  shows "a = b"
proof -
  have "(of_char (digit_char a) :: nat) = of_char (digit_char b)"
    using assms(3) by simp
  then have "(48 + a) mod 256 = (48 + b) mod 256"
    by (simp add: digit_char_def)
  with assms(1,2) show ?thesis by simp
qed

lemma string_of_nat_length: "length (string_of_nat n) = 1 \<longleftrightarrow> n < 10"
proof (cases "n < 10")
  case True
  then show ?thesis by (simp add: string_of_nat.simps[of n])
next
  case False
  then have "string_of_nat (n div 10) \<noteq> []"
    by (simp add: string_of_nat.simps[of "n div 10"])
  with False show ?thesis by (simp add: string_of_nat.simps[of n])
qed

lemma string_of_nat_inj: "string_of_nat a = string_of_nat b \<Longrightarrow> a = b"
proof (induction a arbitrary: b rule: string_of_nat.induct)
  case (1 n)
  show ?case
  proof (cases "n < 10")
    case True
    with "1.prems" string_of_nat_length[of n] string_of_nat_length[of b] have b: "b < 10"
      by simp
    with True "1.prems" have "digit_char n = digit_char b"
      by (simp add: string_of_nat.simps[of n] string_of_nat.simps[of b])
    with True b show ?thesis by (rule digit_char_inj)
  next
    case False
    with "1.prems" string_of_nat_length[of n] string_of_nat_length[of b] have b: "\<not> b < 10"
      by simp
    with False "1.prems" have eq: "string_of_nat (n div 10) = string_of_nat (b div 10)"
      and d: "digit_char (n mod 10) = digit_char (b mod 10)"
      by (simp_all add: string_of_nat.simps[of n] string_of_nat.simps[of b])
    from "1.IH"[OF False eq] have "n div 10 = b div 10" .
    moreover from d have "n mod 10 = b mod 10"
      by (intro digit_char_inj) simp_all
    ultimately show ?thesis by (metis div_mult_mod_eq)
  qed
qed

lemma message_id_inj [simp]: "message_id a = message_id b \<longleftrightarrow> a = b"
  by (auto simp: message_id_def dest: string_of_nat_inj)

lemma conversation_id_inj [simp]: "conversation_id a = conversation_id b \<longleftrightarrow> a = b"
  by (auto simp: conversation_id_def dest: string_of_nat_inj)

section \<open>Every creation adds a record\<close>

lemma wf_service_fresh:
  assumes "wf_service s"
  shows "message_id (Suc (messageCounter s)) \<notin> fst ` set (messages s)"
proof
  assume "message_id (Suc (messageCounter s)) \<in> fst ` set (messages s)"
  with assms have "message_id (Suc (messageCounter s))
                     \<in> set (map message_id [1..<Suc (messageCounter s)])"
    by (auto simp: wf_service_def list_all_iff)
  then show False by auto
qed

lemma createMessage_appends:
  assumes "wf_service s"
  shows "\<exists>m s'. createMessage e (Some md) s = (Inr m, s')
           \<and> m_id m = message_id (Suc (messageCounter s))
           \<and> m_id m \<notin> fst ` set (messages s)
           \<and> messages s' = messages s @ [(m_id m, m)]
           \<and> m_platform m = md_platform md
           \<and> m_platformMessageId m = md_platformMessageId md
           \<and> messageCounter s' = Suc (messageCounter s)
           \<and> wf_service s'"
proof -
  obtain n where n: "normalizeMessageData (Some md) = Inr n"
    using normalizeMessageData_Some by blast
  let ?mid = "message_id (Suc (messageCounter s))"
  from createMessage_Some[OF n, of e s] obtain m s' where
    cm: "createMessage e (Some md) s = (Inr m, s')"
    and ms: "messages s' = AList.update ?mid m (messages s)"
    and mc: "messageCounter s' = Suc (messageCounter s)"
    and m: "m = (if truthy (md_conversationId md)
                 then build_message ?mid (now e) n
                        (if truthy (md_text n) then categorizeMessage e (the (md_text n)) (md_platform n) else None)
                 else (build_message ?mid (now e) n
                        (if truthy (md_text n) then categorizeMessage e (the (md_text n)) (md_platform n) else None))
                      \<lparr>m_conversationId := Some (conversation_id (Suc (conversationCounter s)))\<rparr>)"
    by blast
  have id: "m_id m = ?mid" using m by simp
  have fresh: "?mid \<notin> fst ` set (messages s)" using assms by (rule wf_service_fresh)
  have app: "messages s' = messages s @ [(m_id m, m)]"
    using ms fresh by (simp add: update_fresh id)
  have pl: "m_platform m = md_platform md" "m_platformMessageId m = md_platformMessageId md"
    using m normalizeMessageData_fields(4,5)[OF n] by (simp_all add: build_message_def)
  have wf: "wf_service s'"
    using assms fresh by (auto simp: wf_service_def app mc id list_all_iff)
  have fresh': "m_id m \<notin> fst ` set (messages s)" using fresh id by simp
  show ?thesis
    apply (rule exI[of _ m], rule exI[of _ s'])
    using cm id fresh' app pl mc wf by (intro conjI) assumption+
qed

text \<open>
  Claim C1, as the code has it. There is no deduplication: on a service whose message keys
  were all handed out by the counter, every \<^verbatim>\<open>createMessage\<close> call on a payload object is
  accepted and appends one new record under the fresh id \<^verbatim>\<open>msg_<counter + 1>\<close>, whatever
  \<open>(platform, platformMessageId)\<close> pairs the store already holds; the new record carries the
  payload's pair, and the keys of the message map stay distinct.
\<close>

theorem createMessage_adds_record:
  assumes "wf_service s"
  shows "\<exists>m s'. createMessage e (Some md) s = (Inr m, s')
           \<and> m_id m = message_id (Suc (messageCounter s))
           \<and> m_id m \<notin> fst ` set (messages s)
           \<and> messages s' = messages s @ [(m_id m, m)]
           \<and> m_platform m = md_platform md
           \<and> m_platformMessageId m = md_platformMessageId md
           \<and> messageCounter s' = Suc (messageCounter s)
           \<and> wf_service s'"
  using assms by (rule createMessage_appends)

text \<open>Two deliveries of one Telegram update are both accepted, under two ids; the store
  then holds the pair \<open>(telegram, 555)\<close> twice.\<close>

theorem redelivery_counterexample:
  "fst first_delivery = Saved200 ''msg_1'' \<and> fst second_delivery = Saved200 ''msg_2''
   \<and> map fst (messages (snd second_delivery)) = [''msg_1'', ''msg_2'']
   \<and> map (m_platform \<circ> snd) (messages (snd second_delivery)) = [Some ''telegram'', Some ''telegram'']
   \<and> map (m_platformMessageId \<circ> snd) (messages (snd second_delivery)) = [Some ''555'', Some ''555'']"
  by code_simp

lemma first_delivery_wf: "wf_service (snd first_delivery)"
  by code_simp

theorem createMessage_adds_record_witness:
  "wf_service (snd first_delivery)
   \<and> map (m_platformMessageId \<circ> snd) (messages (snd first_delivery)) = [Some ''555'']
   \<and> length (messages (snd (createMessage (env_at 6) (Some again_555) (snd first_delivery)))) = 2"
proof -
  have one: "map (m_platformMessageId \<circ> snd) (messages (snd first_delivery)) = [Some ''555'']"
    by code_simp
  then have "length (messages (snd first_delivery)) = 1"
    by (metis length_map length_Cons list.size(3) One_nat_def)
  with createMessage_adds_record[OF first_delivery_wf, of "env_at 6" again_555] one first_delivery_wf
  show ?thesis by auto
qed

section \<open>Numbering\<close>

lemma wf_new_service: "wf_service new_service"
  by (simp add: wf_service_def new_service_def)

lemma create_all_ids:
  assumes "wf_service s"
  shows "wf_service (create_all ps s)
       \<and> messageCounter (create_all ps s) = messageCounter s + length ps
       \<and> map (m_id \<circ> snd) (messages (create_all ps s))
           = map (m_id \<circ> snd) (messages s)
             @ map message_id [Suc (messageCounter s)..<Suc (messageCounter s + length ps)]"
  using assms
proof (induction ps arbitrary: s)
  case Nil
  then show ?case by simp
next
  case (Cons p ps)
  obtain e md where p: "p = (e, md)" by (cases p)
  from createMessage_appends[OF Cons.prems, of e md] obtain m s' where
    cm: "createMessage e (Some md) s = (Inr m, s')"
    and id: "m_id m = message_id (Suc (messageCounter s))"
    and app: "messages s' = messages s @ [(m_id m, m)]"
    and mc: "messageCounter s' = Suc (messageCounter s)"
    and wf: "wf_service s'"
    by blast
  have step: "create_all (p # ps) s = create_all ps s'"
    using cm p by simp
  have up: "[Suc (messageCounter s)..<Suc (Suc (messageCounter s + length ps))]
             = Suc (messageCounter s) # [Suc (Suc (messageCounter s))..<Suc (Suc (messageCounter s + length ps))]"
    by (rule upt_conv_Cons) simp
  from Cons.IH[OF wf] show ?case
    unfolding step by (simp add: mc app id up del: upt_Suc)
qed

lemma filter_numbered:
  "map f xs = map g ns \<Longrightarrow> sorted_wrt (<) ns \<Longrightarrow>
     \<exists>ns'. map f (filter P xs) = map g ns' \<and> sorted_wrt (<) ns' \<and> set ns' \<subseteq> set ns"
proof (induction xs arbitrary: ns)
  case Nil
  then show ?case by simp
next
  case (Cons x xs)
  from Cons.prems(1) obtain n ns0 where ns: "ns = n # ns0" and fx: "f x = g n"
    and rest: "map f xs = map g ns0"
    by (cases ns) auto
  from Cons.prems(2) ns have s0: "sorted_wrt (<) ns0" and lt: "\<forall>k\<in>set ns0. n < k" by auto
  from Cons.IH[OF rest s0] obtain ns' where
    a: "map f (filter P xs) = map g ns'" and b: "sorted_wrt (<) ns'" and c: "set ns' \<subseteq> set ns0"
    by blast
  show ?case
  proof (cases "P x")
    case True
    have "map f (filter P (x # xs)) = map g (n # ns')" using True a fx by simp
    moreover have "sorted_wrt (<) (n # ns')" using b c lt by auto
    moreover have "set (n # ns') \<subseteq> set ns" using c ns by auto
    ultimately show ?thesis by blast
  next
    case False
    have "map f (filter P (x # xs)) = map g ns'" using False a by simp
    moreover have "set ns' \<subseteq> set ns" using c ns by auto
    ultimately show ?thesis using b by blast
  qed
qed

text \<open>In \<open>three_messages\<close> the first conversation holds two messages, numbered 1 and 3.\<close>

theorem conversation_numbers_counterexample:
  "map m_id (conversation_messages ''conv_1'' three_messages) = [''msg_1'', ''msg_3'']"
  by code_simp

section \<open>Failing runs\<close>




text \<open>The id counter is service-wide: the creation after a failed run is stored as
  \<^verbatim>\<open>msg_2\<close>.\<close>

lemma failed_run_id_counter:
  "fst (createMessage (env_at 1) None new_service) = Inl TypeError
   \<and> messageCounter (snd (createMessage (env_at 1) None new_service)) = 1
   \<and> map fst (messages (snd (createMessage (env_at 2) (Some no_fields)
                                (snd (createMessage (env_at 1) None new_service))))) = [''msg_2'']"
  by code_simp

section \<open>Validation\<close>





section \<open>Fan-out\<close>

text \<open>
  Claim C8, as the code has it. The emit to the subscribers runs inside the handler's
  \<^verbatim>\<open>try\<close> block after the message was stored. Its outcome never changes the service state,
  but it decides the response: a run that would answer 200 with the message id answers 500
  instead when the application has no \<^verbatim>\<open>io\<close> or the emit throws.
\<close>

theorem fanout_changes_only_the_response:
  "snd (telegram_webhook e io body s) = snd (telegram_webhook e EmitReturns body s)
   \<and> (io \<noteq> EmitReturns \<longrightarrow>
        fst (telegram_webhook e io body s)
          = (case fst (telegram_webhook e EmitReturns body s) of
               Saved200 i \<Rightarrow> Error500 | NoContent200 \<Rightarrow> NoContent200 | Error500 \<Rightarrow> Error500))"
  by (simp add: telegram_webhook_def split: option.splits sum.splits prod.splits)

text \<open>The same delivery answers 200 when the emit returns and 500 when it does not, the
  message being stored either way.\<close>

theorem fanout_counterexample:
  "fst (telegram_webhook (env_at 5) EmitReturns telegram_555 new_service) = Saved200 ''msg_1''
   \<and> fst (telegram_webhook (env_at 5) IoMissing telegram_555 new_service) = Error500
   \<and> fst (telegram_webhook (env_at 5) EmitThrows telegram_555 new_service) = Error500
   \<and> map fst (messages (snd (telegram_webhook (env_at 5) IoMissing telegram_555 new_service)))
       = [''msg_1'']"
  by code_simp

theorem fanout_changes_only_the_response_witness:
  "IoMissing \<noteq> EmitReturns
   \<and> fst (telegram_webhook (env_at 5) IoMissing telegram_555 new_service) = Error500
   \<and> snd (telegram_webhook (env_at 5) IoMissing telegram_555 new_service) = snd first_delivery"
proof -
  have "fst (telegram_webhook (env_at 5) EmitReturns telegram_555 new_service) = Saved200 ''msg_1''"
    by code_simp
  with fanout_changes_only_the_response[of "env_at 5" IoMissing telegram_555 new_service]
  show ?thesis by (simp add: first_delivery_def)
qed

section \<open>Categorization\<close>

lemma createMessage_state:
  assumes "normalizeMessageData (Some md) = Inr n"
  shows "snd (createMessage e (Some md) s)
           = snd (updateConversation
                    (build_message (message_id (Suc (messageCounter s))) (now e) n
                       (if truthy (md_text n) then categorizeMessage e (the (md_text n)) (md_platform n)
                        else None))
                    (s\<lparr>messageCounter := Suc (messageCounter s),
                       messages := AList.update (message_id (Suc (messageCounter s)))
                         (build_message (message_id (Suc (messageCounter s))) (now e) n
                            (if truthy (md_text n) then categorizeMessage e (the (md_text n)) (md_platform n)
                             else None))
                         (messages s)\<rparr>))"
  using assms by (simp add: createMessage_def Let_def split_beta)

lemma updateConversation_conversations_cong:
  assumes "m_conversationId a = m_conversationId b" "m_text a = m_text b"
    "m_timestamp a = m_timestamp b" "m_platform a = m_platform b"
    "m_senderId a = m_senderId b" "m_recipientId a = m_recipientId b"
    "m_subject a = m_subject b" "m_sender a = m_sender b"
    "m_attachments a = m_attachments b"
    "conversations s = conversations t" "conversationCounter s = conversationCounter t"
  shows "conversations (snd (updateConversation a s)) = conversations (snd (updateConversation b t))
       \<and> conversationCounter (snd (updateConversation a s))
           = conversationCounter (snd (updateConversation b t))"
  using assms
  by (simp add: updateConversation_def createConversation_def Let_def split_beta
           split: option.splits)

lemma build_message_ai:
  "build_message i t n ai' =
     (build_message i t n ai)
       \<lparr>m_priority := m_priority (build_message i t n ai'),
        m_aiCategory := m_aiCategory (build_message i t n ai'),
        m_aiConfidence := m_aiConfidence (build_message i t n ai'),
        m_aiSentiment := m_aiSentiment (build_message i t n ai'),
        m_aiKeywords := m_aiKeywords (build_message i t n ai'),
        m_aiSuggestedReplies := m_aiSuggestedReplies (build_message i t n ai'),
        m_aiInsights := m_aiInsights (build_message i t n ai')\<rparr>"
  by (simp add: build_message_def)

lemma build_message_id_time:
  "build_message i' t' n ai = (build_message i t n ai)\<lparr>m_id := i', m_timestamp := t'\<rparr>"
  by (simp add: build_message_def)

text \<open>
  Claim C7, as the code has it. \<^verbatim>\<open>normalizeMessageData\<close> has no access to the categorizer,
  but \<^verbatim>\<open>createMessage\<close> asks it and copies its answer into \<open>priority\<close> and the \<open>ai*\<close>
  fields of the stored message. With any other categorizer the call is accepted all the same,
  and the message differs in these seven fields only; the conversation map, both counters and
  the keys of the message map are the same.
\<close>

theorem categorizer_reaches_only_ai_fields:
  "\<exists>m1 s1 m2 s2.
      createMessage e (Some md) s = (Inr m1, s1)
    \<and> createMessage (e\<lparr>categorizeMessage := c\<rparr>) (Some md) s = (Inr m2, s2)
    \<and> m2 = m1\<lparr>m_priority := m_priority m2, m_aiCategory := m_aiCategory m2,
                m_aiConfidence := m_aiConfidence m2, m_aiSentiment := m_aiSentiment m2,
                m_aiKeywords := m_aiKeywords m2, m_aiSuggestedReplies := m_aiSuggestedReplies m2,
                m_aiInsights := m_aiInsights m2\<rparr>
    \<and> conversations s2 = conversations s1
    \<and> conversationCounter s2 = conversationCounter s1
    \<and> messageCounter s2 = messageCounter s1
    \<and> map fst (messages s2) = map fst (messages s1)"
proof -
  obtain n where n: "normalizeMessageData (Some md) = Inr n"
    using normalizeMessageData_Some by blast
  let ?e' = "e\<lparr>categorizeMessage := c\<rparr>"
  let ?mid = "message_id (Suc (messageCounter s))"
  let ?ai = "if truthy (md_text n) then categorizeMessage e (the (md_text n)) (md_platform n) else None"
  let ?ai' = "if truthy (md_text n) then c (the (md_text n)) (md_platform n) else None"
  let ?msg = "build_message ?mid (now e) n ?ai"
  let ?msg' = "build_message ?mid (now e) n ?ai'"
  let ?m = "if truthy (md_conversationId md) then ?msg
            else ?msg\<lparr>m_conversationId := Some (conversation_id (Suc (conversationCounter s)))\<rparr>"
  let ?m' = "if truthy (md_conversationId md) then ?msg'
             else ?msg'\<lparr>m_conversationId := Some (conversation_id (Suc (conversationCounter s)))\<rparr>"
  from createMessage_Some[OF n, of e s] obtain s1 where
    r1: "createMessage e (Some md) s = (Inr ?m, s1)"
    and k1: "messages s1 = AList.update ?mid ?m (messages s)"
    and c1: "messageCounter s1 = Suc (messageCounter s)"
    by blast
  from createMessage_Some[OF n, of ?e' s] obtain s2 where
    r2: "createMessage ?e' (Some md) s = (Inr ?m', s2)"
    and k2: "messages s2 = AList.update ?mid ?m' (messages s)"
    and c2: "messageCounter s2 = Suc (messageCounter s)"
    by auto
  have fields: "?m' = ?m\<lparr>m_priority := m_priority ?m', m_aiCategory := m_aiCategory ?m',
                m_aiConfidence := m_aiConfidence ?m', m_aiSentiment := m_aiSentiment ?m',
                m_aiKeywords := m_aiKeywords ?m', m_aiSuggestedReplies := m_aiSuggestedReplies ?m',
                m_aiInsights := m_aiInsights ?m'\<rparr>"
    by (simp add: build_message_def)
  have s1: "s1 = snd (createMessage e (Some md) s)" using r1 by simp
  have s2: "s2 = snd (createMessage ?e' (Some md) s)" using r2 by simp
  have conv: "conversations s2 = conversations s1 \<and> conversationCounter s2 = conversationCounter s1"
    unfolding s1 s2 createMessage_state[OF n]
    by (rule updateConversation_conversations_cong) (simp_all add: build_message_def)
  have keys: "map fst (messages s2) = map fst (messages s1)"
    by (simp add: k1 k2 update_keys)
  show ?thesis
    apply (rule exI[of _ ?m], rule exI[of _ s1], rule exI[of _ ?m'], rule exI[of _ s2])
    using r1 r2 fields conv keys c1 c2 by (intro conjI) simp_all
qed

text \<open>The stored message carries the categorizer's answer.\<close>

theorem categorization_counterexample:
  "map (m_aiCategory \<circ> snd) (messages (snd (createMessage (env_urgent 1) (Some server_down) new_service)))
     = [''urgent'']
   \<and> map (m_aiSentiment \<circ> snd) (messages (snd (createMessage (env_urgent 1) (Some server_down) new_service)))
     = [''negative'']
   \<and> map (m_priority \<circ> snd) (messages (snd (createMessage (env_urgent 1) (Some server_down) new_service)))
     = [''high'']
   \<and> map (m_aiCategory \<circ> snd) (messages (snd (createMessage (env_at 1) (Some server_down) new_service)))
     = [''general'']"
  by code_simp

text \<open>
  Claim C9, as the code has it. Two runs of \<^verbatim>\<open>createMessage\<close> on the same payload object,
  in any two service states and at any two clock readings, with categorizers that answer
  alike, return messages that agree in every field except \<open>id\<close>, \<open>timestamp\<close> and
  \<open>conversationId\<close>; the conversation ids agree as well when the payload names a
  conversation.
\<close>

theorem two_runs_agree:
  assumes "categorizeMessage e1 = categorizeMessage e2"
  shows "\<exists>m1 t1 m2 t2.
      createMessage e1 (Some md) s1 = (Inr m1, t1)
    \<and> createMessage e2 (Some md) s2 = (Inr m2, t2)
    \<and> m2 = m1\<lparr>m_id := m_id m2, m_timestamp := m_timestamp m2,
                m_conversationId := m_conversationId m2\<rparr>
    \<and> (truthy (md_conversationId md) \<longrightarrow> m_conversationId m2 = m_conversationId m1)"
proof -
  obtain n where n: "normalizeMessageData (Some md) = Inr n"
    using normalizeMessageData_Some by blast
  let ?ai = "if truthy (md_text n) then categorizeMessage e1 (the (md_text n)) (md_platform n) else None"
  let ?msg1 = "build_message (message_id (Suc (messageCounter s1))) (now e1) n ?ai"
  let ?msg2 = "build_message (message_id (Suc (messageCounter s2))) (now e2) n ?ai"
  let ?m1 = "if truthy (md_conversationId md) then ?msg1
            else ?msg1\<lparr>m_conversationId := Some (conversation_id (Suc (conversationCounter s1)))\<rparr>"
  let ?m2 = "if truthy (md_conversationId md) then ?msg2
            else ?msg2\<lparr>m_conversationId := Some (conversation_id (Suc (conversationCounter s2)))\<rparr>"
  from createMessage_Some[OF n, of e1 s1] obtain t1 where
    r1: "createMessage e1 (Some md) s1 = (Inr ?m1, t1)" by blast
  from createMessage_Some[OF n, of e2 s2] assms obtain t2 where
    r2: "createMessage e2 (Some md) s2 = (Inr ?m2, t2)" by auto
  have fields: "?m2 = ?m1\<lparr>m_id := m_id ?m2, m_timestamp := m_timestamp ?m2,
                           m_conversationId := m_conversationId ?m2\<rparr>"
    by (simp add: build_message_def)
  have cid: "truthy (md_conversationId md) \<longrightarrow> m_conversationId ?m2 = m_conversationId ?m1"
    by simp
  show ?thesis
    apply (rule exI[of _ ?m1], rule exI[of _ t1], rule exI[of _ ?m2], rule exI[of _ t2])
    using r1 r2 fields cid by (intro conjI) assumption+
qed

text \<open>Two runs on one payload that names no conversation end in two conversations; two runs
  whose categorizers answer differently differ in \<open>aiCategory\<close>.\<close>

theorem two_runs_counterexample:
  "map (m_conversationId \<circ> snd)
     (messages (create_all [(env_at 1, again_555), (env_at 1, again_555)] new_service))
     = [Some ''conv_1'', Some ''conv_2'']
   \<and> map (m_aiCategory \<circ> snd)
       (messages (create_all [(env_at 1, reply_in_conv_1), (env_urgent 1, reply_in_conv_1)] new_service))
     = [''general'', ''urgent'']"
  by code_simp

theorem two_runs_agree_witness:
  "categorizeMessage (env_at 1) = categorizeMessage (env_at 2)
   \<and> truthy (md_conversationId into_conv_1)
   \<and> m_conversationId (projr (fst (createMessage (env_at 2) (Some into_conv_1) three_messages)))
       = m_conversationId (projr (fst (createMessage (env_at 1) (Some into_conv_1) new_service)))"
proof -
  have c: "categorizeMessage (env_at 1) = categorizeMessage (env_at 2)"
    by (simp add: env_at_def)
  have t: "truthy (md_conversationId into_conv_1)"
    by (simp add: into_conv_1_def no_fields_def truthy_def)
  from two_runs_agree[OF c, of into_conv_1 new_service three_messages] t c
  show ?thesis by auto
qed

section \<open>Display order\<close>

lemma slice_neg_suffix: "\<exists>earlier. earlier @ slice_neg limit xs = xs"
  unfolding slice_neg_def by (metis append_take_drop_id)

lemma createMessage_timestamp:
  "\<exists>m s'. createMessage e (Some md) s = (Inr m, s') \<and> m_timestamp m = now e"
proof -
  obtain n where n: "normalizeMessageData (Some md) = Inr n"
    using normalizeMessageData_Some by blast
  let ?msg = "build_message (message_id (Suc (messageCounter s))) (now e) n
                (if truthy (md_text n) then categorizeMessage e (the (md_text n)) (md_platform n) else None)"
  let ?m = "if truthy (md_conversationId md) then ?msg
            else ?msg\<lparr>m_conversationId := Some (conversation_id (Suc (conversationCounter s)))\<rparr>"
  from createMessage_Some[OF n, of e s] obtain s' where
    "createMessage e (Some md) s = (Inr ?m, s')" by blast
  moreover have "m_timestamp ?m = now e" by (simp add: build_message_def)
  ultimately show ?thesis by blast
qed

text \<open>
  Claim C3, as the code has it. A message has one time field, \<open>timestamp\<close>, which
  \<^verbatim>\<open>createMessage\<close> reads from the clock when it runs, whatever timestamp the payload
  carries; there is no sequence number. \<^verbatim>\<open>getConversationMessages\<close> returns the tail of the
  conversation's messages sorted by ascending \<open>timestamp\<close>, messages with equal timestamps
  in the order of the message map.
\<close>

theorem display_order_is_creation_order:
  "(\<exists>m s'. createMessage e (Some md) s = (Inr m, s') \<and> m_timestamp m = now e)
   \<and> (\<forall>ms. getConversationMessages cid limit s0 = Inr ms \<longrightarrow>
         (\<exists>earlier. sorted (map m_timestamp (earlier @ ms))
            \<and> (\<forall>t. filter (\<lambda>msg. m_timestamp msg = t) (earlier @ ms)
                     = filter (\<lambda>msg. m_timestamp msg = t) (conversation_messages cid s0))))"
proof (intro conjI allI impI)
  show "\<exists>m s'. createMessage e (Some md) s = (Inr m, s') \<and> m_timestamp m = now e"
    by (rule createMessage_timestamp)
next
  fix ms
  assume g: "getConversationMessages cid limit s0 = Inr ms"
  let ?all = "sort_key m_timestamp (conversation_messages cid s0)"
  from g have ms: "ms = slice_neg limit ?all"
    by (auto simp: getConversationMessages_def conversation_messages_def split: option.splits)
  obtain earlier where e: "earlier @ ms = ?all"
    using slice_neg_suffix[of limit ?all] ms by blast
  have "sorted (map m_timestamp (earlier @ ms))"
    unfolding e by (rule sorted_sort_key)
  moreover have "\<forall>t. filter (\<lambda>msg. m_timestamp msg = t) (earlier @ ms)
                     = filter (\<lambda>msg. m_timestamp msg = t) (conversation_messages cid s0)"
    unfolding e by (simp add: sort_key_stable)
  ultimately show "\<exists>earlier. sorted (map m_timestamp (earlier @ ms))
            \<and> (\<forall>t. filter (\<lambda>msg. m_timestamp msg = t) (earlier @ ms)
                     = filter (\<lambda>msg. m_timestamp msg = t) (conversation_messages cid s0))"
    by blast
qed

text \<open>The message with the later platform timestamp was created first and is displayed first.\<close>

theorem display_order_counterexample:
  "md_timestamp sent_later = Some 2000 \<and> md_timestamp sent_earlier = Some 1000
   \<and> \<not> isl (getConversationMessages ''conv_1'' 50 out_of_order)
   \<and> map m_platformMessageId (projr (getConversationMessages ''conv_1'' 50 out_of_order))
       = [Some ''a'', Some ''b'']
   \<and> map m_timestamp (projr (getConversationMessages ''conv_1'' 50 out_of_order)) = [1, 2]"
  by code_simp

theorem display_order_is_creation_order_witness:
  "\<not> isl (getConversationMessages ''conv_1'' 50 out_of_order)
   \<and> sorted (map m_timestamp (projr (getConversationMessages ''conv_1'' 50 out_of_order)))"
proof -
  have r: "\<not> isl (getConversationMessages ''conv_1'' 50 out_of_order)"
    by code_simp
  then have h: "getConversationMessages ''conv_1'' 50 out_of_order
                  = Inr (projr (getConversationMessages ''conv_1'' 50 out_of_order))"
    by (cases "getConversationMessages ''conv_1'' 50 out_of_order") simp_all
  from display_order_is_creation_order[of "env_at 1" no_fields new_service "''conv_1''" 50 out_of_order] h
  obtain earlier where
    "sorted (map m_timestamp (earlier @ projr (getConversationMessages ''conv_1'' 50 out_of_order)))"
    by blast
  then have "sorted (map m_timestamp (projr (getConversationMessages ''conv_1'' 50 out_of_order)))"
    by (simp add: sorted_append)
  with r show ?thesis by simp
qed

section \<open>Reading back\<close>

lemma insort_key_snoc:
  "f y \<le> f x \<Longrightarrow> insort_key f y (zs @ [x]) = insort_key f y zs @ [x]"
  by (induction zs) simp_all

lemma sort_key_snoc_max:
  "\<forall>y\<in>set ys. f y \<le> f x \<Longrightarrow> sort_key f (ys @ [x]) = sort_key f ys @ [x]"
  by (induction ys) (simp_all add: insort_key_snoc)

lemma update_member: "(k, v) \<in> set (AList.update k v al)"
  by (induct al) auto

lemma slice_neg_all:
  "limit = 0 \<or> int (length xs) \<le> limit \<Longrightarrow> slice_neg limit xs = xs"
  by (auto simp: slice_neg_def)

lemma slice_neg_last:
  assumes "0 < limit" "xs \<noteq> []"
  shows "last xs \<in> set (slice_neg limit xs)"
proof -
  let ?k = "length xs - nat limit"
  have k: "?k < length xs" using assms by (cases xs) auto
  then have "drop ?k xs \<noteq> []" by simp
  then have "last (drop ?k xs) \<in> set (drop ?k xs)" by (rule last_in_set)
  with k assms show ?thesis by (simp add: slice_neg_def last_drop)
qed

lemma updateConversation_exists:
  assumes "updateConversation msg s = ((cid, msg'), s')"
    and "\<not> truthy (m_conversationId msg) \<or> map_of (conversations s) (the (m_conversationId msg)) \<noteq> None"
  shows "map_of (conversations s') cid \<noteq> None"
  using assms
  by (auto simp: updateConversation_def createConversation_def Let_def update_conv'
           split: option.splits if_splits)

lemma createMessage_via_update:
  assumes "normalizeMessageData (Some md) = Inr n"
  shows "\<exists>cid m s'.
           updateConversation
             (build_message (message_id (Suc (messageCounter s))) (now e) n
                (if truthy (md_text n) then categorizeMessage e (the (md_text n)) (md_platform n)
                 else None))
             (s\<lparr>messageCounter := Suc (messageCounter s),
                messages := AList.update (message_id (Suc (messageCounter s)))
                  (build_message (message_id (Suc (messageCounter s))) (now e) n
                     (if truthy (md_text n) then categorizeMessage e (the (md_text n)) (md_platform n)
                      else None))
                  (messages s)\<rparr>) = ((cid, m), s')
         \<and> createMessage e (Some md) s = (Inr m, s')"
proof -
  let ?msg = "build_message (message_id (Suc (messageCounter s))) (now e) n
                (if truthy (md_text n) then categorizeMessage e (the (md_text n)) (md_platform n)
                 else None)"
  let ?s2 = "s\<lparr>messageCounter := Suc (messageCounter s),
               messages := AList.update (message_id (Suc (messageCounter s))) ?msg (messages s)\<rparr>"
  obtain cid m s' where u: "updateConversation ?msg ?s2 = ((cid, m), s')"
    by (metis surj_pair)
  then have "createMessage e (Some md) s = (Inr m, s')"
    using assms by (simp add: createMessage_def Let_def)
  with u show ?thesis by blast
qed

lemma or_else_Some_nil: "or_else (Some (or_else v [])) [] = or_else v []"
  by (simp add: or_else_def truthy_def split: option.splits)

text \<open>
  Claim C6, as the code has it. Let \<^verbatim>\<open>createMessage\<close> accept a payload that names no
  conversation, or names one that exists. Then \<^verbatim>\<open>getConversationMessages\<close> on the
  conversation of the returned message, with a limit that is 0 or at least the number of its
  messages, or with any positive limit when the keys of the message map were all handed out
  by the counter and no stored message has a later timestamp, returns a list that contains the returned message; its text is the payload's text (or the
  empty string) and its attachments are the payload's (or none). There is no sequence number.
\<close>

theorem create_then_fetch:
  assumes cm: "createMessage e (Some md) s = (Inr m, s')"
    and ex: "\<not> truthy (md_conversationId md)
             \<or> map_of (conversations s) (the (md_conversationId md)) \<noteq> None"
    and lim: "limit = 0
              \<or> int (length (conversation_messages (the (m_conversationId m)) s')) \<le> limit
              \<or> (0 < limit \<and> wf_service s
                  \<and> (\<forall>old\<in>snd ` set (messages s). m_timestamp old \<le> now e))"
  shows "\<exists>ms. getConversationMessages (the (m_conversationId m)) limit s' = Inr ms
            \<and> m \<in> set ms
            \<and> m_text m = or_else (md_text md) []
            \<and> m_attachments m = (case md_attachments md of None \<Rightarrow> [] | Some as \<Rightarrow> as)"
proof -
  obtain n where n: "normalizeMessageData (Some md) = Inr n"
    using normalizeMessageData_Some by blast
  let ?mid = "message_id (Suc (messageCounter s))"
  let ?msg = "build_message ?mid (now e) n
                (if truthy (md_text n) then categorizeMessage e (the (md_text n)) (md_platform n)
                 else None)"
  let ?s2 = "s\<lparr>messageCounter := Suc (messageCounter s),
               messages := AList.update ?mid ?msg (messages s)\<rparr>"
  from createMessage_via_update[OF n, of s e] cm obtain cid where
    u: "updateConversation ?msg ?s2 = ((cid, m), s')"
    by auto
  have cidm: "m_conversationId m = Some cid"
    using updateConversation_shape(2)[OF u] .
  have mform: "m = (if truthy (md_conversationId md) then ?msg
                    else ?msg\<lparr>m_conversationId := Some (conversation_id (Suc (conversationCounter s)))\<rparr>)"
    and ms: "messages s' = AList.update ?mid m (messages s)"
    using createMessage_Some[OF n, of e s] cm by auto
  have mid: "m_id m = ?mid" and ts: "m_timestamp m = now e"
    using mform by (simp_all add: build_message_def)
  have tx: "m_text m = or_else (md_text md) []"
    using mform normalizeMessageData_fields(2)[OF n]
    by (simp add: build_message_def or_else_Some_nil)
  have att: "m_attachments m = (case md_attachments md of None \<Rightarrow> [] | Some as \<Rightarrow> as)"
    using mform normalizeMessageData_fields(3)[OF n]
    by (simp add: build_message_def)
  have "map_of (conversations s') cid \<noteq> None"
    using updateConversation_exists[OF u] ex normalizeMessageData_fields(1)[OF n] by simp
  then obtain conv where conv: "map_of (conversations s') cid = Some conv" by blast
  let ?own = "conversation_messages cid s'"
  let ?sorted = "sort_key m_timestamp ?own"
  have get: "getConversationMessages cid limit s' = Inr (slice_neg limit ?sorted)"
    using conv by (simp add: getConversationMessages_def conversation_messages_def)
  have "(?mid, m) \<in> set (messages s')"
    unfolding ms by (rule update_member)
  then have "m \<in> snd ` set (messages s')" by force
  with cidm have own: "m \<in> set ?own"
    by (simp add: conversation_messages_def)
  have "m \<in> set (slice_neg limit ?sorted)"
  proof -
    consider (all) "limit = 0 \<or> int (length ?own) \<le> limit"
      | (newest) "0 < limit" "wf_service s" "\<forall>old\<in>snd ` set (messages s). m_timestamp old \<le> now e"
      using lim cidm by auto
    then show ?thesis
    proof cases
      case all
      then have "slice_neg limit ?sorted = ?sorted"
        by (intro slice_neg_all) simp
      with own show ?thesis by simp
    next
      case newest
      have "?mid \<notin> fst ` set (messages s)"
        using newest(2) by (rule wf_service_fresh)
      then have app: "messages s' = messages s @ [(?mid, m)]"
        unfolding ms by (rule update_fresh)
      have split: "?own = conversation_messages cid s @ [m]"
        using cidm by (simp add: conversation_messages_def app)
      have "\<forall>y\<in>set (conversation_messages cid s). m_timestamp y \<le> m_timestamp m"
        using newest(3) ts by (auto simp: conversation_messages_def)
      then have "?sorted = sort_key m_timestamp (conversation_messages cid s) @ [m]"
        unfolding split by (rule sort_key_snoc_max)
      then have "?sorted \<noteq> []" "last ?sorted = m" by simp_all
      with slice_neg_last[OF newest(1), of ?sorted] show ?thesis by simp
    qed
  qed
  with get tx att cidm show ?thesis by simp
qed

text \<open>A message stored under a conversation id that names no conversation cannot be fetched;
  and with limit 1 a message created after the clock stepped back is cut off.\<close>

theorem create_then_fetch_counterexample:
  "\<not> isl (fst (createMessage (env_at 1) (Some into_conv_9) new_service))
   \<and> m_conversationId (projr (fst (createMessage (env_at 1) (Some into_conv_9) new_service)))
       = Some ''conv_9''
   \<and> getConversationMessages ''conv_9'' 50
        (snd (createMessage (env_at 1) (Some into_conv_9) new_service)) = Inl ConversationNotFound
   \<and> map (m_platformMessageId \<circ> snd) (messages clock_back) = [Some ''a'', Some ''b'']
   \<and> map m_platformMessageId (projr (getConversationMessages ''conv_1'' 1 clock_back)) = [Some ''a'']"
  by code_simp

theorem create_then_fetch_witness:
  "wf_service three_messages
   \<and> map_of (conversations three_messages) ''conv_1'' \<noteq> None
   \<and> projr (fst (createMessage (env_at 4) (Some reply_in_conv_1) three_messages))
       \<in> set (projr (getConversationMessages ''conv_1'' 50
                        (snd (createMessage (env_at 4) (Some reply_in_conv_1) three_messages))))
   \<and> m_text (projr (fst (createMessage (env_at 4) (Some reply_in_conv_1) three_messages))) = ''hello''"
proof -
  let ?r = "createMessage (env_at 4) (Some reply_in_conv_1) three_messages"
  have "\<not> isl (fst ?r)" by code_simp
  then have cm: "?r = (Inr (projr (fst ?r)), snd ?r)"
    by (cases ?r; cases "fst ?r") simp_all
  have ex: "\<not> truthy (md_conversationId reply_in_conv_1)
            \<or> map_of (conversations three_messages) (the (md_conversationId reply_in_conv_1)) \<noteq> None"
    by code_simp
  have wf: "wf_service three_messages" by code_simp
  have old: "\<forall>old\<in>snd ` set (messages three_messages). m_timestamp old \<le> now (env_at 4)"
    by code_simp
  have lim: "(50::int) = 0
             \<or> int (length (conversation_messages (the (m_conversationId (projr (fst ?r)))) (snd ?r))) \<le> 50
             \<or> (0 < (50::int) \<and> wf_service three_messages
                 \<and> (\<forall>old\<in>snd ` set (messages three_messages). m_timestamp old \<le> now (env_at 4)))"
    using wf old by simp
  have cid: "the (m_conversationId (projr (fst ?r))) = ''conv_1''" by code_simp
  have tx: "or_else (md_text reply_in_conv_1) [] = ''hello''" by code_simp
  from create_then_fetch[OF cm ex lim] cid tx three_messages_conv_1 wf
  show ?thesis by auto
qed

section \<open>Counting\<close>

lemma createMessage_counts:
  assumes c: "md_conversationId md = Some c" "c \<noteq> []"
    and conv: "map_of (conversations s) c = Some conv"
  shows "\<exists>conv'. map_of (conversations (snd (createMessage e (Some md) s))) c = Some conv'
                \<and> c_messageCount conv' = Suc (c_messageCount conv)"
proof -
  obtain n where n: "normalizeMessageData (Some md) = Inr n"
    using normalizeMessageData_Some by blast
  have "md_conversationId n = Some c"
    using normalizeMessageData_fields(1)[OF n] c by simp
  with c conv show ?thesis
    unfolding createMessage_state[OF n]
    by (simp add: updateConversation_def Let_def truthy_def update_conv')
qed

text \<open>
  Claim C2, as the code has it. Messages carry no per-conversation sequence number; the only
  number a message receives is the service-wide counter inside its id. After any run of
  \<open>n\<close> creations on a new service the stored ids are \<^verbatim>\<open>msg_1\<close>, ..., \<^verbatim>\<open>msg_n\<close> in this
  order, so the numbers of the messages of one conversation are strictly increasing and
  lie in \<open>1..n\<close>, without having to be consecutive. A creation into an existing
  conversation raises that conversation's \<open>messageCount\<close> by exactly one.
\<close>

theorem message_numbers_increase:
  "messageCounter (create_all ps new_service) = length ps
   \<and> map (m_id \<circ> snd) (messages (create_all ps new_service)) = map message_id [1..<Suc (length ps)]
   \<and> (\<exists>ns. map m_id (conversation_messages cid (create_all ps new_service)) = map message_id ns
            \<and> sorted_wrt (<) ns \<and> set ns \<subseteq> {1..length ps})
   \<and> (md_conversationId md = Some c \<and> c \<noteq> [] \<and> map_of (conversations s) c = Some conv \<longrightarrow>
        (\<exists>conv'. map_of (conversations (snd (createMessage e (Some md) s))) c = Some conv'
                 \<and> c_messageCount conv' = Suc (c_messageCount conv)))"
proof -
  let ?s = "create_all ps new_service"
  from create_all_ids[OF wf_new_service, of ps]
  have mc: "messageCounter ?s = length ps"
    and ids: "map (m_id \<circ> snd) (messages ?s) = map message_id [1..<Suc (length ps)]"
    by (simp_all add: new_service_def)
  from ids have "map m_id (map snd (messages ?s)) = map message_id [1..<Suc (length ps)]"
    by simp
  from filter_numbered[OF this sorted_wrt_upt, of "\<lambda>msg. m_conversationId msg = Some cid"]
  obtain ns where ns: "map m_id (conversation_messages cid ?s) = map message_id ns"
    "sorted_wrt (<) ns" and sub: "set ns \<subseteq> set [1..<Suc (length ps)]"
    unfolding conversation_messages_def by blast
  have "set [1..<Suc (length ps)] = {1..length ps}"
    by (simp only: set_upt atLeastLessThanSuc_atLeastAtMost)
  with sub have "set ns \<subseteq> {1..length ps}" by simp
  with ns have C: "\<exists>ns. map m_id (conversation_messages cid ?s) = map message_id ns
                     \<and> sorted_wrt (<) ns \<and> set ns \<subseteq> {1..length ps}"
    by blast
  have B: "md_conversationId md = Some c \<and> c \<noteq> [] \<and> map_of (conversations s) c = Some conv \<longrightarrow>
        (\<exists>conv'. map_of (conversations (snd (createMessage e (Some md) s))) c = Some conv'
                 \<and> c_messageCount conv' = Suc (c_messageCount conv))"
    using createMessage_counts[of md c s conv e] by blast
  show ?thesis using mc ids C B by (intro conjI)
qed

theorem message_numbers_increase_witness:
  "md_conversationId reply_in_conv_1 = Some ''conv_1''
   \<and> map_of (conversations three_messages) ''conv_1'' \<noteq> None
   \<and> c_messageCount (the (map_of (conversations (snd (createMessage (env_at 4) (Some reply_in_conv_1)
                                                         three_messages))) ''conv_1''))
       = Suc (c_messageCount (the (map_of (conversations three_messages) ''conv_1'')))"
proof -
  obtain conv where h: "map_of (conversations three_messages) ''conv_1'' = Some conv"
    using three_messages_conv_1 by blast
  have c: "md_conversationId reply_in_conv_1 = Some ''conv_1''"
    by (simp add: reply_in_conv_1_def no_fields_def)
  have "\<exists>conv'. map_of (conversations (snd (createMessage (env_at 4) (Some reply_in_conv_1)
                                               three_messages))) ''conv_1'' = Some conv'
               \<and> c_messageCount conv' = Suc (c_messageCount conv)"
    using message_numbers_increase[where ps = "[]" and cid = "''conv_1''" and md = reply_in_conv_1
            and c = "''conv_1''" and s = three_messages and conv = conv and e = "env_at 4"] h c
    by blast
  with h c show ?thesis by auto
qed

end
